theory Spec2Isabelle
  imports Main "HOL-Library.Word"
begin

unbundle bit_operations_syntax

section \<open>Python values, errors and strings\<close>

text \<open>
  The module under study is \<^verbatim>\<open>app/calendarutil.py\<close>.  Every \<^verbatim>\<open>raise\<close> of the
  source, and every exception of a library call it makes, is a value of \<open>error\<close>;
  a function that can raise returns \<open>error + 'a\<close> with \<open>Inl\<close> for the exception.
\<close>

datatype error =
    UnicodeEncodeError
  | KeyError string
  | TypeError
  | ValueError
  | DoesNotExist
  | MultipleObjectsReturned
  | HttpError int
  | TransportError string

text \<open>The values that are stored in a format dictionary: \<^verbatim>\<open>%s\<close> applies \<^verbatim>\<open>str\<close>.\<close>

datatype pyval = PyInt int | PyStr string

definition digit_char :: "nat \<Rightarrow> char" where
  "digit_char d = char_of (48 + d)"

fun digits_of :: "nat \<Rightarrow> string" where
  "digits_of n = (if n < 10 then [digit_char n] else digits_of (n div 10) @ [digit_char (n mod 10)])"

declare digits_of.simps [simp del]

text \<open>\<^verbatim>\<open>str(i)\<close> for a Python integer: decimal digits, a leading minus sign when negative.\<close>

definition str_int :: "int \<Rightarrow> string" where
  "str_int i = (if i < 0 then CHR ''-'' # digits_of (nat (- i)) else digits_of (nat i))"

fun str_py :: "pyval \<Rightarrow> string" where
  "str_py (PyInt i) = str_int i"
| "str_py (PyStr s) = s"

text \<open>
  \<^verbatim>\<open>template % mapping\<close>: the printf-style formatting of Python with a dictionary on
  the right.  The scanner is in one of four places: in literal text, just after a
  \<^verbatim>\<open>%\<close>, inside the parentheses of a key, or at the conversion character after the key.
  Only the directive \<^verbatim>\<open>%(key)s\<close> and the escape \<^verbatim>\<open>%%\<close> are interpreted; the source's
  template uses nothing else, and any other directive is reported as \<open>ValueError\<close>.
\<close>

datatype fmt_pos = Literal | AfterPercent | InKey string | AtConv string

fun on_ok :: "('a \<Rightarrow> 'b) \<Rightarrow> error + 'a \<Rightarrow> error + 'b" where
  "on_ok f (Inl e) = Inl e"
| "on_ok f (Inr v) = Inr (f v)"

fun dict_get :: "(string \<times> 'v) list \<Rightarrow> string \<Rightarrow> error + 'v" where
  "dict_get d k = (case map_of d k of None \<Rightarrow> Inl (KeyError k) | Some v \<Rightarrow> Inr v)"

fun percent_scan :: "fmt_pos \<Rightarrow> string \<Rightarrow> (string \<times> pyval) list \<Rightarrow> error + string" where
  "percent_scan Literal [] d = Inr []"
| "percent_scan Literal (c # cs) d =
     (if c = CHR ''%'' then percent_scan AfterPercent cs d
      else on_ok ((#) c) (percent_scan Literal cs d))"
| "percent_scan AfterPercent (c # cs) d =
     (if c = CHR ''('' then percent_scan (InKey []) cs d
      else if c = CHR ''%'' then on_ok ((#) c) (percent_scan Literal cs d)
      else Inl ValueError)"
| "percent_scan (InKey k) (c # cs) d =
     (if c = CHR '')'' then percent_scan (AtConv k) cs d
      else percent_scan (InKey (k @ [c])) cs d)"
| "percent_scan (AtConv k) (c # cs) d =
     (case dict_get d k of
        Inl e \<Rightarrow> Inl e
      | Inr v \<Rightarrow>
          (if c = CHR ''s'' then on_ok ((@) (str_py v)) (percent_scan Literal cs d)
           else Inl ValueError))"
| "percent_scan p [] d = Inl ValueError"

definition percent_format :: "string \<Rightarrow> (string \<times> pyval) list \<Rightarrow> error + string" where
  "percent_format template d = percent_scan Literal template d"

section \<open>SHA-1 (\<^verbatim>\<open>hashlib.sha1\<close>)\<close>

type_synonym byte = "8 word"
type_synonym word32 = "32 word"

text \<open>\<^verbatim>\<open>bytes(string, "ascii")\<close>: a code point above 127 cannot be encoded.\<close>

fun ascii_bytes :: "string \<Rightarrow> error + byte list" where
  "ascii_bytes [] = Inr []"
| "ascii_bytes (c # cs) =
     (if (of_char c :: nat) < 128 then on_ok ((#) (of_char c)) (ascii_bytes cs)
      else Inl UnicodeEncodeError)"

definition be32 :: "word32 \<Rightarrow> byte list" where
  "be32 w = [ucast (drop_bit 24 w), ucast (drop_bit 16 w), ucast (drop_bit 8 w), ucast w]"

definition be64 :: "64 word \<Rightarrow> byte list" where
  "be64 w = map (\<lambda>k. ucast (drop_bit (8 * k) w)) [7, 6, 5, 4, 3, 2, 1, 0]"

text \<open>Padding: a one bit, zero bits up to 56 modulo 64 bytes, the bit length on 64 bits.\<close>

definition sha1_pad :: "byte list \<Rightarrow> byte list" where
  "sha1_pad m =
     m @ [0x80] @ replicate ((119 - length m mod 64) mod 64) 0 @ be64 (of_nat (8 * length m))"

fun words_of :: "byte list \<Rightarrow> word32 list" where
  "words_of (a # b # c # d # bs) =
     (push_bit 24 (ucast a) OR push_bit 16 (ucast b) OR push_bit 8 (ucast c) OR ucast d)
       # words_of bs"
| "words_of bs = []"

definition rotl32 :: "nat \<Rightarrow> word32 \<Rightarrow> word32" where
  "rotl32 n w = push_bit n w OR drop_bit (32 - n) w"

definition sha1_f :: "nat \<Rightarrow> word32 \<Rightarrow> word32 \<Rightarrow> word32 \<Rightarrow> word32" where
  "sha1_f t b c d =
     (if t < 20 then (b AND c) OR (NOT b AND d)
      else if t < 40 then b XOR c XOR d
      else if t < 60 then (b AND c) OR (b AND d) OR (c AND d)
      else b XOR c XOR d)"

definition sha1_k :: "nat \<Rightarrow> word32" where
  "sha1_k t =
     (if t < 20 then 0x5A827999
      else if t < 40 then 0x6ED9EBA1
      else if t < 60 then 0x8F1BBCDC
      else 0xCA62C1D6)"

type_synonym sha1_state = "word32 \<times> word32 \<times> word32 \<times> word32 \<times> word32"

text \<open>
  The eighty rounds of one block.  \<open>ws\<close> is the window of the last sixteen words of
  the message schedule; round \<open>t\<close> consumes its head and appends word \<open>t + 16\<close>.
\<close>

fun sha1_rounds :: "nat \<Rightarrow> nat \<Rightarrow> word32 list \<Rightarrow> sha1_state \<Rightarrow> sha1_state" where
  "sha1_rounds 0 t ws st = st"
| "sha1_rounds (Suc n) t ws (a, b, c, d, e) =
     (case ws of
        [] \<Rightarrow> (a, b, c, d, e)
      | w # rest \<Rightarrow>
          sha1_rounds n (Suc t)
            (rest @ [rotl32 1 (ws ! 13 XOR ws ! 8 XOR ws ! 2 XOR w)])
            (rotl32 5 a + sha1_f t b c d + e + sha1_k t + w, a, rotl32 30 b, c, d))"

definition sha1_block :: "sha1_state \<Rightarrow> byte list \<Rightarrow> sha1_state" where
  "sha1_block h blk =
     (case (h, sha1_rounds 80 0 (words_of blk) h) of
        ((h0, h1, h2, h3, h4), (a, b, c, d, e)) \<Rightarrow> (h0 + a, h1 + b, h2 + c, h3 + d, h4 + e))"

fun sha1_blocks :: "nat \<Rightarrow> sha1_state \<Rightarrow> byte list \<Rightarrow> sha1_state" where
  "sha1_blocks 0 h bs = h"
| "sha1_blocks (Suc n) h bs = sha1_blocks n (sha1_block h (take 64 bs)) (drop 64 bs)"

definition sha1_init :: sha1_state where
  "sha1_init = (0x67452301, 0xEFCDAB89, 0x98BADCFE, 0x10325476, 0xC3D2E1F0)"

definition sha1 :: "byte list \<Rightarrow> sha1_state" where
  "sha1 m = (let p = sha1_pad m in sha1_blocks (length p div 64) sha1_init p)"

definition digest :: "sha1_state \<Rightarrow> byte list" where
  "digest h = (case h of (h0, h1, h2, h3, h4) \<Rightarrow> be32 h0 @ be32 h1 @ be32 h2 @ be32 h3 @ be32 h4)"

definition hex_char :: "nat \<Rightarrow> char" where
  "hex_char n = ''0123456789abcdef'' ! (n mod 16)"

definition hex_byte :: "byte \<Rightarrow> string" where
  "hex_byte b = [hex_char (unat b div 16), hex_char (unat b mod 16)]"

definition hexdigest :: "sha1_state \<Rightarrow> string" where
  "hexdigest h = concat (map hex_byte (digest h))"

text \<open>
  \<^verbatim>\<open>str.lower()\<close> on the code points that a \<open>char\<close> can hold: the ASCII capitals and
  the capitals of Latin-1 move down by 32, everything else stays.
\<close>

definition lower_char :: "char \<Rightarrow> char" where
  "lower_char c =
     (let n = (of_char c :: nat) in
      if (65 \<le> n \<and> n \<le> 90) \<or> (192 \<le> n \<and> n \<le> 214) \<or> (216 \<le> n \<and> n \<le> 222)
      then char_of (n + 32) else c)"

definition lower :: "string \<Rightarrow> string" where
  "lower s = map lower_char s"

section \<open>The derived event identifier\<close>

definition CALENDAR_ID_SUFFIX :: string where
  "CALENDAR_ID_SUFFIX = ''ratatoskr.techhigh.us''"

definition CALENDAR_TIMESLOT_EVENT_ID :: string where
  "CALENDAR_TIMESLOT_EVENT_ID = ''%(timeslot_id)s@%(schedule_id)s#'' @ CALENDAR_ID_SUFFIX"

definition hashify :: "string \<Rightarrow> error + string" where
  "hashify string = on_ok (\<lambda>bs. lower (hexdigest (sha1 bs))) (ascii_bytes string)"

section \<open>Application records\<close>

text \<open>
  The Django models the module reads, with the fields it reads.  A record is a snapshot
  of the row and of its related rows at the moment of the call: \<open>reservation_set\<close> is
  the list that both \<^verbatim>\<open>reservation_set.count()\<close> and \<^verbatim>\<open>reservation_set.all()\<close> see.
  Primary keys are the integers of an \<^verbatim>\<open>AutoField\<close>.
\<close>

type_synonym user = string

datatype json =
    JNull
  | JBool bool
  | JInt int
  | JStr string
  | JList "json list"
  | JObj "(string \<times> json) list"

text \<open>
  A \<^verbatim>\<open>datetime\<close>: the wall-clock fields and \<open>tzinfo\<close>, the offset from UTC in minutes
  when the value is aware, \<open>None\<close> when it is naive.
\<close>

record datetime =
  year :: nat
  month :: nat
  day :: nat
  hour :: nat
  minute :: nat
  second :: nat
  microsecond :: nat
  tzinfo :: "int option"

record Reservation =
  email :: string
  name :: string
  comment :: string

record Schedule =
  schedule_id :: int
  owner :: user
  schedule_name :: string
  calendar_id :: string
  calendar_meet_data :: json

record Timeslot =
  timeslot_id :: int
  schedule :: Schedule
  time_from :: datetime
  time_to :: datetime
  reservation_set :: "Reservation list"

text \<open>The local \<^verbatim>\<open>built_string\<close> of \<^verbatim>\<open>build_timeslot_event_id\<close>.\<close>

definition built_string :: "Timeslot \<Rightarrow> error + string" where
  "built_string timeslot =
     percent_format CALENDAR_TIMESLOT_EVENT_ID
       [(''schedule_id'', PyInt (schedule_id (schedule timeslot))),
        (''timeslot_id'', PyInt (timeslot_id timeslot))]"

definition build_timeslot_event_id :: "Timeslot \<Rightarrow> error + string" where
  "build_timeslot_event_id timeslot =
     (case built_string timeslot of
        Inl e \<Rightarrow> Inl e
      | Inr s \<Rightarrow> hashify s)"

text \<open>
  The identifier as the specification words it: the lowercase hexadecimal SHA-1 digest
  of the bytes of the string made of the timeslot id, an at sign, the schedule id and the
  suffix \<^verbatim>\<open>#ratatoskr.techhigh.us\<close>.
\<close>

definition spec_prehash :: "int \<Rightarrow> int \<Rightarrow> string" where
  "spec_prehash sid tid = str_int tid @ ''@'' @ str_int sid @ ''#ratatoskr.techhigh.us''"

definition spec_event_id :: "int \<Rightarrow> int \<Rightarrow> string" where
  "spec_event_id sid tid = lower (hexdigest (sha1 (map of_char (spec_prehash sid tid))))"

section \<open>Dates\<close>

definition zpad :: "nat \<Rightarrow> nat \<Rightarrow> string" where
  "zpad k n = replicate (k - length (digits_of n)) CHR ''0'' @ digits_of n"

text \<open>\<^verbatim>\<open>datetime.isoformat()\<close>, with the offset as \<^verbatim>\<open>+HH:MM\<close> when the value is aware.\<close>

definition isoformat :: "datetime \<Rightarrow> string" where
  "isoformat dt =
     zpad 4 (year dt) @ ''-'' @ zpad 2 (month dt) @ ''-'' @ zpad 2 (day dt) @ ''T'' @
     zpad 2 (hour dt) @ '':'' @ zpad 2 (minute dt) @ '':'' @ zpad 2 (second dt) @
     (if microsecond dt \<noteq> 0 then ''.'' @ zpad 6 (microsecond dt) else []) @
     (case tzinfo dt of
        None \<Rightarrow> []
      | Some off \<Rightarrow>
          (if off < 0 then ''-'' else ''+'') @
          zpad 2 (nat \<bar>off\<bar> div 60) @ '':'' @ zpad 2 (nat \<bar>off\<bar> mod 60))"

text \<open>\<^verbatim>\<open>dt.replace(tzinfo=None)\<close>: the same wall-clock fields, naive.\<close>

definition replace_tzinfo_None :: "datetime \<Rightarrow> datetime" where
  "replace_tzinfo_None dt = dt\<lparr>tzinfo := None\<rparr>"

text \<open>
  A \<^verbatim>\<open>pytz\<close> zone is its rule: the offset from UTC, in minutes, that the zone has at a
  given wall-clock time.  \<^verbatim>\<open>zone.localize(dt)\<close> attaches that offset to a naive value
  without moving its wall-clock fields, and refuses an aware one.
\<close>

type_synonym tz = "datetime \<Rightarrow> int"

definition localize :: "tz \<Rightarrow> datetime \<Rightarrow> error + datetime" where
  "localize zone dt =
     (case tzinfo dt of
        Some off \<Rightarrow> Inl ValueError
      | None \<Rightarrow> Inr (dt\<lparr>tzinfo := Some (zone dt)\<rparr>))"

section \<open>The environment: token store, clock, zone database\<close>

record SocialToken =
  account_user :: user
  account_provider :: string
  token :: string
  token_secret :: string

record SocialApp =
  provider :: string
  client_id :: string
  secret :: string

text \<open>
  What the module reads from outside itself: the rows of the two allauth tables, the
  zone database of \<^verbatim>\<open>pytz\<close>, and, for the placeholder event, the two clock readings
  (already made aware and serialised, the second one two hours later) and the string of
  a fresh \<^verbatim>\<open>uuid4\<close>.
\<close>

record env =
  social_tokens :: "SocialToken list"
  social_apps :: "SocialApp list"
  pytz_timezone :: "string \<Rightarrow> tz"
  now_iso :: string
  now_plus_2h_iso :: string
  uuid4 :: string

text \<open>\<^verbatim>\<open>Model.objects.get(...)\<close>: exactly one matching row, or an exception.\<close>

definition objects_get :: "('a \<Rightarrow> bool) \<Rightarrow> 'a list \<Rightarrow> error + 'a" where
  "objects_get p rows =
     (case filter p rows of
        [] \<Rightarrow> Inl DoesNotExist
      | [r] \<Rightarrow> Inr r
      | _ \<Rightarrow> Inl MultipleObjectsReturned)"

record Credentials =
  cred_token :: string
  cred_refresh_token :: string
  cred_token_uri :: string
  cred_client_id :: string
  cred_client_secret :: string

record client =
  service_name :: string
  version :: string
  credentials :: Credentials

definition build :: "string \<Rightarrow> string \<Rightarrow> Credentials \<Rightarrow> client" where
  "build s v c = \<lparr>service_name = s, version = v, credentials = c\<rparr>"

definition build_calendar_client :: "env \<Rightarrow> user \<Rightarrow> error + client" where
  "build_calendar_client E usr =
     (case objects_get (\<lambda>t. account_user t = usr \<and> account_provider t = ''google'')
             (social_tokens E) of
        Inl e \<Rightarrow> Inl e
      | Inr tok \<Rightarrow>
          (case objects_get (\<lambda>a. provider a = ''google'') (social_apps E) of
             Inl e \<Rightarrow> Inl e
           | Inr google_app \<Rightarrow>
               Inr (build ''calendar'' ''v3''
                     \<lparr>cred_token = token tok,
                      cred_refresh_token = token_secret tok,
                      cred_token_uri = ''https://oauth2.googleapis.com/token'',
                      cred_client_id = client_id google_app,
                      cred_client_secret = secret google_app\<rparr>)))"

section \<open>The calendar provider\<close>

text \<open>
  A resource method of the client (\<^verbatim>\<open>client.events().patch(...)\<close>) only builds a request
  object.  Nothing reaches the provider until \<^verbatim>\<open>.execute()\<close> is called on that
  object.  The constructors carry the keyword arguments the source passes.
\<close>

datatype request =
    CalendarsInsert json
  | CalendarsDelete string
  | EventsInsert string int json
  | EventsPatch string string int json
  | EventsDelete string string

text \<open>
  The provider is a parameter: any function from the caller, the request and the
  provider's own state to a response or an exception, and a new state.  The world is the
  provider's state and the log of the requests that were executed, oldest first.
\<close>

type_synonym 's provider = "client \<Rightarrow> request \<Rightarrow> 's \<Rightarrow> (error + json) \<times> 's"

record 's world =
  remote :: 's
  calls :: "request list"

definition execute :: "'s provider \<Rightarrow> client \<Rightarrow> request \<Rightarrow> 's world \<Rightarrow> (error + json) \<times> 's world" where
  "execute P cl rq w =
     (case P cl rq (remote w) of
        (r, s') \<Rightarrow> (r, \<lparr>remote = s', calls = calls w @ [rq]\<rparr>))"


section \<open>Calendar lifecycle\<close>




text \<open>
  The source builds the request \<^verbatim>\<open>client.calendars().delete(calendarId=...)\<close> and
  drops it: there is no \<^verbatim>\<open>.execute()\<close> on this line, alone among the provider
  calls of the module.
\<close>

definition delete_calendar_for_schedule ::
  "env \<Rightarrow> 's provider \<Rightarrow> Schedule \<Rightarrow> 's world \<Rightarrow> (error + unit) \<times> 's world" where
  "delete_calendar_for_schedule E P sch w =
     (case build_calendar_client E (owner sch) of
        Inl e \<Rightarrow> (Inl e, w)
      | Inr cl \<Rightarrow> (let unsent = CalendarsDelete (calendar_id sch) in (Inr (), w)))"

section \<open>Timeslot events\<close>

definition delete_timeslot_event ::
  "env \<Rightarrow> 's provider \<Rightarrow> Timeslot \<Rightarrow> 's world \<Rightarrow> (error + unit) \<times> 's world" where
  "delete_timeslot_event E P timeslot w =
     (case build_calendar_client E (owner (schedule timeslot)) of
        Inl e \<Rightarrow> (Inl e, w)
      | Inr cl \<Rightarrow>
          (case build_timeslot_event_id timeslot of
             Inl e \<Rightarrow> (Inl e, w)
           | Inr eventid \<Rightarrow>
               (case execute P cl (EventsDelete (calendar_id (schedule timeslot)) eventid) w of
                  (Inr _, w1) \<Rightarrow> (Inr (), w1)
                | (Inl (HttpError status_code), w1) \<Rightarrow>
                    (if status_code \<notin> set [404, 410] then (Inl (HttpError status_code), w1)
                     else (Inr (), w1))
                | (Inl e, w1) \<Rightarrow> (Inl e, w1))))"

definition attendee :: "Reservation \<Rightarrow> json" where
  "attendee r =
     JObj [(''email'', JStr (email r)), (''displayName'', JStr (name r)),
           (''comment'', JStr (comment r))]"

definition reminders :: json where
  "reminders =
     JObj [(''useDefault'', JBool False),
           (''overrides'',
              JList [JObj [(''method'', JStr ''email''), (''minutes'', JInt (60 * 24 * 2))],
                     JObj [(''method'', JStr ''email''), (''minutes'', JInt (60 * 24))],
                     JObj [(''method'', JStr ''email''), (''minutes'', JInt 10)]])]"

text \<open>
  The description of the event ends with a mouse emoji (U+1F42D) and a full stop; the
  emoji is written here as the four bytes of its UTF-8 encoding.
\<close>

definition mouse :: string where
  "mouse = map char_of [0xF0 :: nat, 0x9F, 0x90, 0xAD]"

definition event_body :: "Timeslot \<Rightarrow> string \<Rightarrow> string \<Rightarrow> string \<Rightarrow> json" where
  "event_body timeslot start end event_id =
     JObj [(''summary'', JStr (''Ratatoskr: '' @ schedule_name (schedule timeslot))),
           (''location'', JStr ''Atop Yggdrasil''),
           (''description'', JStr (''Event relayed to you by Ratatoskr '' @ mouse @ ''.'')),
           (''start'', JObj [(''dateTime'', JStr start)]),
           (''end'', JObj [(''dateTime'', JStr end)]),
           (''conferenceData'', calendar_meet_data (schedule timeslot)),
           (''attendees'', JList (map attendee (reservation_set timeslot))),
           (''reminders'', reminders),
           (''id'', JStr event_id)]"

text \<open>
  \<^verbatim>\<open>except HttpError:\<close> after the patch has no test of the status: every
  \<open>HttpError\<close> of the patch leads to the insert.
\<close>

definition update_timeslot_event ::
  "env \<Rightarrow> 's provider \<Rightarrow> Timeslot \<Rightarrow> 's world \<Rightarrow> (error + unit) \<times> 's world" where
  "update_timeslot_event E P timeslot w =
     (case build_calendar_client E (owner (schedule timeslot)) of
        Inl e \<Rightarrow> (Inl e, w)
      | Inr cl \<Rightarrow>
          if length (reservation_set timeslot) = 0 then delete_timeslot_event E P timeslot w
          else
            (case build_timeslot_event_id timeslot of
               Inl e \<Rightarrow> (Inl e, w)
             | Inr event_id \<Rightarrow>
                 (let east = pytz_timezone E ''America/New_York'' in
                  case localize east (replace_tzinfo_None (time_from timeslot)) of
                    Inl e \<Rightarrow> (Inl e, w)
                  | Inr start_dt \<Rightarrow>
                      (case localize east (replace_tzinfo_None (time_to timeslot)) of
                         Inl e \<Rightarrow> (Inl e, w)
                       | Inr end_dt \<Rightarrow>
                           (let cal = calendar_id (schedule timeslot);
                                body = event_body timeslot (isoformat start_dt) (isoformat end_dt) event_id
                            in case execute P cl (EventsPatch cal event_id 1 body) w of
                                 (Inr _, w1) \<Rightarrow> (Inr (), w1)
                               | (Inl (HttpError status_code), w1) \<Rightarrow>
                                   (case execute P cl (EventsInsert cal 1 body) w1 of
                                      (Inr _, w2) \<Rightarrow> (Inr (), w2)
                                    | (Inl e, w2) \<Rightarrow> (Inl e, w2))
                               | (Inl e, w1) \<Rightarrow> (Inl e, w1))))))"

section \<open>Auxiliary notions for the statements\<close>

text \<open>The number a string of decimal digits denotes.\<close>

definition dec_value :: "string \<Rightarrow> nat" where
  "dec_value s = foldl (\<lambda>a c. 10 * a + (of_char c - 48)) 0 s"

text \<open>The requests executed between two worlds, and the lookup of a key in an object.\<close>

definition new_calls :: "'s world \<Rightarrow> 's world \<Rightarrow> request list" where
  "new_calls w w' = drop (length (calls w)) (calls w')"

definition jget :: "json \<Rightarrow> string \<Rightarrow> json option" where
  "jget j k = (case j of JObj kvs \<Rightarrow> map_of kvs k | _ \<Rightarrow> None)"

text \<open>Whether a patch or insert request is addressed by, and carries, a given event id.\<close>

definition carries_id :: "string \<Rightarrow> request \<Rightarrow> bool" where
  "carries_id eid rq =
     (case rq of
        EventsPatch cal e v body \<Rightarrow> e = eid \<and> jget body ''id'' = Some (JStr eid)
      | EventsInsert cal v body \<Rightarrow> jget body ''id'' = Some (JStr eid)
      | _ \<Rightarrow> False)"

section \<open>Concrete data for the instances\<close>

definition env0 :: env where
  "env0 =
     \<lparr>social_tokens =
        [\<lparr>account_user = ''alice'', account_provider = ''google'',
          token = ''ya29.access'', token_secret = ''1//refresh''\<rparr>],
      social_apps = [\<lparr>provider = ''google'', client_id = ''app-id'', secret = ''app-secret''\<rparr>],
      pytz_timezone = (\<lambda>zone dt. if zone = ''America/New_York'' then - 300 else 0),
      now_iso = ''2022-03-01T12:00:00+00:00'',
      now_plus_2h_iso = ''2022-03-01T14:00:00+00:00'',
      uuid4 = ''123e4567-e89b-42d3-a456-426614174000''\<rparr>"

definition client0 :: client where
  "client0 =
     build ''calendar'' ''v3''
       \<lparr>cred_token = ''ya29.access'', cred_refresh_token = ''1//refresh'',
        cred_token_uri = ''https://oauth2.googleapis.com/token'',
        cred_client_id = ''app-id'', cred_client_secret = ''app-secret''\<rparr>"

definition meet_data :: json where
  "meet_data = JObj [(''conferenceId'', JStr ''abc-defg-hij'')]"

definition schedule0 :: Schedule where
  "schedule0 =
     \<lparr>schedule_id = 7, owner = ''alice'', schedule_name = ''Lab'', calendar_id = ''cal-1'',
      calendar_meet_data = meet_data\<rparr>"

definition slot_from :: datetime where
  "slot_from =
     \<lparr>year = 2022, month = 3, day = 14, hour = 9, minute = 30, second = 0, microsecond = 0,
      tzinfo = Some 0\<rparr>"

definition slot_to :: datetime where
  "slot_to =
     \<lparr>year = 2022, month = 3, day = 14, hour = 10, minute = 0, second = 0, microsecond = 0,
      tzinfo = Some 0\<rparr>"

definition timeslot0 :: Timeslot where
  "timeslot0 =
     \<lparr>timeslot_id = 42, schedule = schedule0, time_from = slot_from, time_to = slot_to,
      reservation_set = [\<lparr>email = ''bob@example.org'', name = ''Bob'', comment = ''first visit''\<rparr>]\<rparr>"

text \<open>The same timeslot once its last reservation is gone, and a timeslot of another schedule.\<close>

definition timeslot_free :: Timeslot where
  "timeslot_free = timeslot0\<lparr>reservation_set := []\<rparr>"

definition timeslot_other :: Timeslot where
  "timeslot_other = timeslot0\<lparr>timeslot_id := 27, schedule := schedule0\<lparr>schedule_id := 4\<rparr>\<rparr>"

text \<open>
  A provider that keeps the events that exist, as pairs of calendar id and event id.  A
  patch or a delete of an event that does not exist is answered with 404 or 410; an
  insert takes the id of the body, or issues the id \<^verbatim>\<open>ev-1\<close> and conference data when
  the body has none.
\<close>

definition placeholder_event :: json where
  "placeholder_event = JObj [(''id'', JStr ''ev-1''), (''conferenceData'', meet_data)]"

definition store_provider :: "(string \<times> string) list provider" where
  "store_provider cl rq s =
     (case rq of
        CalendarsInsert body \<Rightarrow> (Inr (JObj [(''id'', JStr ''cal-1'')]), s)
      | CalendarsDelete cal \<Rightarrow> (Inr JNull, filter (\<lambda>ce. fst ce \<noteq> cal) s)
      | EventsInsert cal v body \<Rightarrow>
          (case jget body ''id'' of
             Some (JStr e) \<Rightarrow>
               if (cal, e) \<in> set s then (Inl (HttpError 409), s) else (Inr body, (cal, e) # s)
           | _ \<Rightarrow> (Inr placeholder_event, (cal, ''ev-1'') # s))
      | EventsPatch cal e v body \<Rightarrow>
          if (cal, e) \<in> set s then (Inr body, s) else (Inl (HttpError 404), s)
      | EventsDelete cal e \<Rightarrow>
          if (cal, e) \<in> set s then (Inr JNull, removeAll (cal, e) s)
          else (Inl (HttpError 410), s))"

text \<open>A provider without state that answers every patch with the given HTTP status.\<close>

definition patch_failing_provider :: "int \<Rightarrow> unit provider" where
  "patch_failing_provider st cl rq s =
     (case rq of
        EventsPatch cal e v body \<Rightarrow> (Inl (HttpError st), s)
      | _ \<Rightarrow> (Inr JNull, s))"

definition world0 :: "(string \<times> string) list world" where
  "world0 = \<lparr>remote = [], calls = []\<rparr>"

definition world_unit :: "unit world" where
  "world_unit = \<lparr>remote = (), calls = []\<rparr>"


section \<open>The identifier: decimal strings, formatting, encoding\<close>

lemma digit_char_code: "d < 10 \<Longrightarrow> (of_char (digit_char d) :: nat) = 48 + d"
  by (simp add: digit_char_def)

lemma digits_of_codes: "c \<in> set (digits_of n) \<Longrightarrow> 48 \<le> (of_char c :: nat) \<and> (of_char c :: nat) \<le> 57"
proof (induction n arbitrary: c rule: digits_of.induct)
  case (1 n)
  show ?case
  proof (cases "n < 10")
    case True
    with "1.prems" have "c = digit_char n" by (simp add: digits_of.simps [of n])
    with True show ?thesis by (simp add: digit_char_code)
  next
    case False
    with "1.prems" have "c \<in> set (digits_of (n div 10)) \<or> c = digit_char (n mod 10)"
      by (auto simp: digits_of.simps [of n])
    then show ?thesis
    proof
      assume "c \<in> set (digits_of (n div 10))"
      with False "1.IH" show ?thesis by blast
    next
      assume "c = digit_char (n mod 10)"
      then show ?thesis by (simp add: digit_char_code)
    qed
  qed
qed

lemma str_int_codes: "c \<in> set (str_int i) \<Longrightarrow> (of_char c :: nat) < 128"
  by (auto simp: str_int_def dest: digits_of_codes split: if_splits)

lemma ascii_bytes_ok:
  "(\<And>c. c \<in> set s \<Longrightarrow> (of_char c :: nat) < 128) \<Longrightarrow> ascii_bytes s = Inr (map of_char s)"
  by (induction s) auto

lemma built_string_eq:
  "built_string ts = Inr (spec_prehash (schedule_id (schedule ts)) (timeslot_id ts))"
  by (simp add: built_string_def percent_format_def CALENDAR_TIMESLOT_EVENT_ID_def
      CALENDAR_ID_SUFFIX_def spec_prehash_def)

lemma spec_prehash_codes: "c \<in> set (spec_prehash sid tid) \<Longrightarrow> (of_char c :: nat) < 128"
  by (auto simp: spec_prehash_def dest: str_int_codes)

lemma build_timeslot_event_id_eq:
  "build_timeslot_event_id ts = Inr (spec_event_id (schedule_id (schedule ts)) (timeslot_id ts))"
  by (simp add: build_timeslot_event_id_def built_string_eq hashify_def
      ascii_bytes_ok [OF spec_prehash_codes] spec_event_id_def)

subsection \<open>Shape of the hexadecimal digest\<close>

lemma hex_char_mem: "hex_char n \<in> set ''0123456789abcdef''"
proof -
  have "n mod 16 < length ''0123456789abcdef''" by simp
  then show ?thesis unfolding hex_char_def by (rule nth_mem)
qed

lemma length_hex_bytes: "length (concat (map hex_byte bs)) = 2 * length bs"
  by (induction bs) (simp_all add: hex_byte_def)

lemma set_hex_bytes: "set (concat (map hex_byte bs)) \<subseteq> set ''0123456789abcdef''"
proof (induction bs)
  case Nil
  show ?case by simp
next
  case (Cons b bs)
  have "set (hex_byte b) \<subseteq> set ''0123456789abcdef''"
    using hex_char_mem [of "unat b div 16"] hex_char_mem [of "unat b mod 16"]
    by (simp add: hex_byte_def)
  with Cons show ?case by simp
qed

lemma length_digest: "length (digest h) = 20"
  by (cases h) (simp add: digest_def be32_def)

lemma length_hexdigest: "length (hexdigest h) = 40"
  by (simp add: hexdigest_def length_hex_bytes length_digest)

lemma set_hexdigest: "set (hexdigest h) \<subseteq> set ''0123456789abcdef''"
  unfolding hexdigest_def by (rule set_hex_bytes)

lemma lower_char_hex: "c \<in> set ''0123456789abcdef'' \<Longrightarrow> lower_char c = c"
  by (auto simp: lower_char_def)

lemma lower_hex: "set s \<subseteq> set ''0123456789abcdef'' \<Longrightarrow> lower s = s"
  unfolding lower_def by (rule map_idI) (auto simp: lower_char_hex simp del: set_simps)

lemma lower_hexdigest: "lower (hexdigest h) = hexdigest h"
  by (rule lower_hex [OF set_hexdigest])

subsection \<open>The hexadecimal digest determines the hash state\<close>

lemma hex_char_inj: "a < 16 \<Longrightarrow> b < 16 \<Longrightarrow> hex_char a = hex_char b \<Longrightarrow> a = b"
proof -
  assume a: "a < 16" and b: "b < 16" and e: "hex_char a = hex_char b"
  have d: "distinct ''0123456789abcdef''" by simp
  have "a < length ''0123456789abcdef''" "b < length ''0123456789abcdef''" using a b by simp_all
  with d e a b show ?thesis by (simp add: hex_char_def nth_eq_iff_index_eq del: distinct.simps)
qed

lemma hex_byte_inj: "hex_byte a = hex_byte b \<Longrightarrow> a = b"
proof -
  assume e: "hex_byte a = hex_byte b"
  have la: "unat a < 256" using unsigned_less [of a, where 'a = nat] by simp
  have lb: "unat b < 256" using unsigned_less [of b, where 'a = nat] by simp
  from e have h: "hex_char (unat a div 16) = hex_char (unat b div 16)"
    and l: "hex_char (unat a mod 16) = hex_char (unat b mod 16)"
    by (simp_all add: hex_byte_def)
  have "unat a div 16 = unat b div 16" using la lb by (intro hex_char_inj [OF _ _ h]) simp_all
  moreover have "unat a mod 16 = unat b mod 16" by (intro hex_char_inj [OF _ _ l]) simp_all
  ultimately have "unat a = unat b" by (metis div_mult_mod_eq)
  then show ?thesis by (simp add: word_unat_eq_iff)
qed

lemma length_hex_byte: "length (hex_byte b) = 2"
  by (simp add: hex_byte_def)

lemma hex_bytes_inj:
  "concat (map hex_byte xs) = concat (map hex_byte ys) \<Longrightarrow> xs = ys"
proof (induction xs arbitrary: ys)
  case Nil
  then show ?case by (cases ys) (simp_all add: hex_byte_def)
next
  case (Cons x xs)
  show ?case
  proof (cases ys)
    case Nil
    with Cons.prems show ?thesis by (simp add: hex_byte_def)
  next
    case (Cons y ys')
    with Cons.prems have "hex_byte x @ concat (map hex_byte xs) = hex_byte y @ concat (map hex_byte ys')"
      by simp
    then have "hex_byte x = hex_byte y" "concat (map hex_byte xs) = concat (map hex_byte ys')"
      by (simp_all add: append_eq_append_conv length_hex_byte)
    with Cons.IH Cons show ?thesis by (simp add: hex_byte_inj)
  qed
qed

lemma words_of_be32: "words_of (be32 w) = [w]"
proof -
  have "push_bit 24 (ucast (ucast (drop_bit 24 w) :: byte)) OR push_bit 16 (ucast (ucast (drop_bit 16 w) :: byte))
        OR push_bit 8 (ucast (ucast (drop_bit 8 w) :: byte)) OR ucast (ucast w :: byte) = w"
    apply (rule bit_word_eqI)
    subgoal for n
      by (cases "n < 8"; cases "n < 16"; cases "n < 24") (auto simp: bit_simps)
    done
  then show ?thesis by (simp add: be32_def)
qed

lemma be32_inj: "be32 a = be32 b \<Longrightarrow> a = b"
proof -
  assume "be32 a = be32 b"
  then have "words_of (be32 a) = words_of (be32 b)" by simp
  then show ?thesis by (simp add: words_of_be32)
qed

lemma length_be32: "length (be32 w) = 4"
  by (simp add: be32_def)

lemma digest_inj: "digest h = digest h' \<Longrightarrow> h = h'"
  by (cases h, cases h') (simp add: digest_def append_eq_append_conv length_be32 be32_inj)

lemma hexdigest_inj: "hexdigest h = hexdigest h' \<Longrightarrow> h = h'"
  unfolding hexdigest_def by (rule digest_inj [OF hex_bytes_inj])

subsection \<open>The string before hashing determines the pair of ids\<close>


lemma dec_value_snoc: "dec_value (s @ [c]) = 10 * dec_value s + (of_char c - 48)"
  by (simp add: dec_value_def)

lemma dec_value_digits_of: "dec_value (digits_of n) = n"
proof (induction n rule: digits_of.induct)
  case (1 n)
  show ?case
  proof (cases "n < 10")
    case True
    then show ?thesis
      by (simp add: digits_of.simps [of n] dec_value_def digit_char_code)
  next
    case False
    with "1.IH" have "dec_value (digits_of (n div 10)) = n div 10" by simp
    with False show ?thesis
      by (simp add: digits_of.simps [of n] dec_value_snoc digit_char_code)
  qed
qed

lemma digits_of_inj: "digits_of m = digits_of n \<Longrightarrow> m = n"
  by (metis dec_value_digits_of)

lemma minus_not_in_digits: "CHR ''-'' \<notin> set (digits_of n)"
  using digits_of_codes [of "CHR ''-''" n] by auto

lemma digits_of_not_Nil: "digits_of n \<noteq> []"
  by (subst digits_of.simps) simp

lemma hd_digits_of: "hd (digits_of n) \<noteq> CHR ''-''"
  using minus_not_in_digits [of n] digits_of_not_Nil [of n] by (metis hd_in_set)

lemma str_int_inj: "str_int i = str_int j \<Longrightarrow> i = j"
proof -
  assume e: "str_int i = str_int j"
  consider "i < 0" "j < 0" | "i < 0" "\<not> j < 0" | "\<not> i < 0" "j < 0" | "\<not> i < 0" "\<not> j < 0" by blast
  then show ?thesis
  proof cases
    case 1
    with e have "nat (- i) = nat (- j)" by (simp add: str_int_def digits_of_inj)
    with 1 show ?thesis by simp
  next
    case 2
    with e have "CHR ''-'' # digits_of (nat (- i)) = digits_of (nat j)" by (simp add: str_int_def)
    then have "hd (digits_of (nat j)) = CHR ''-''" by (metis list.sel(1))
    with hd_digits_of show ?thesis by blast
  next
    case 3
    with e have "digits_of (nat i) = CHR ''-'' # digits_of (nat (- j))" by (simp add: str_int_def)
    then have "hd (digits_of (nat i)) = CHR ''-''" by (metis list.sel(1))
    with hd_digits_of show ?thesis by blast
  next
    case 4
    with e have "nat i = nat j" by (simp add: str_int_def digits_of_inj)
    with 4 show ?thesis by simp
  qed
qed

lemma at_not_in_str_int: "CHR ''@'' \<notin> set (str_int i)"
  using digits_of_codes [of "CHR ''@''"] by (auto simp: str_int_def)

lemma split_at_first:
  "a \<notin> set xs \<Longrightarrow> a \<notin> set xs' \<Longrightarrow> xs @ a # ys = xs' @ a # ys' \<Longrightarrow> xs = xs' \<and> ys = ys'"
proof (induction xs arbitrary: xs')
  case Nil
  then show ?case by (cases xs') auto
next
  case (Cons x xs)
  then show ?case by (cases xs') auto
qed

lemma spec_prehash_inj:
  "spec_prehash sid tid = spec_prehash sid' tid' \<Longrightarrow> sid = sid' \<and> tid = tid'"
proof -
  assume "spec_prehash sid tid = spec_prehash sid' tid'"
  then have e: "str_int tid @ CHR ''@'' # (str_int sid @ ''#ratatoskr.techhigh.us'')
              = str_int tid' @ CHR ''@'' # (str_int sid' @ ''#ratatoskr.techhigh.us'')"
    by (simp add: spec_prehash_def)
  from split_at_first [OF at_not_in_str_int at_not_in_str_int e]
  have "str_int tid = str_int tid'" "str_int sid = str_int sid'" by simp_all
  then show ?thesis by (simp add: str_int_inj)
qed


lemma unat_of_char: "unat (of_char c :: byte) = (of_char c :: nat)"
proof -
  have "(of_char c :: byte) = of_nat (of_char c)" by (simp add: of_nat_of_char)
  then have "unat (of_char c :: byte) = (of_char c :: nat) mod 2 ^ 8"
    by (simp add: unat_of_nat)
  then show ?thesis by simp
qed

lemma of_char_byte_inj: "(of_char c :: byte) = of_char d \<Longrightarrow> c = d"
proof -
  assume "(of_char c :: byte) = of_char d"
  then have "unat (of_char c :: byte) = unat (of_char d :: byte)" by simp
  then have "(of_char c :: nat) = of_char d" by (simp only: unat_of_char)
  then show ?thesis by simp
qed

lemma bytes_inj: "map of_char s = (map of_char t :: byte list) \<Longrightarrow> s = t"
proof (induction s arbitrary: t)
  case Nil
  then show ?case by simp
next
  case (Cons c s)
  then show ?case by (cases t) (auto dest: of_char_byte_inj)
qed

section \<open>Provider calls\<close>

lemma execute_eq:
  "execute P cl rq w =
     (fst (P cl rq (remote w)), \<lparr>remote = snd (P cl rq (remote w)), calls = calls w @ [rq]\<rparr>)"
  by (simp add: execute_def split: prod.splits)

lemma localize_naive:
  "localize zone (replace_tzinfo_None dt) =
     Inr (replace_tzinfo_None dt\<lparr>tzinfo := Some (zone (replace_tzinfo_None dt))\<rparr>)"
  by (simp add: localize_def replace_tzinfo_None_def)

lemma new_calls_append: "calls w' = calls w @ xs \<Longrightarrow> new_calls w w' = xs"
  by (simp add: new_calls_def)

lemma build_calendar_client_env0: "build_calendar_client env0 ''alice'' = Inr client0"
  by (simp add: build_calendar_client_def env0_def client0_def objects_get_def)

lemma delete_timeslot_event_client:
  assumes "build_calendar_client E (owner (schedule ts)) = Inr cl"
  shows "delete_timeslot_event E P ts w =
     (let eid = spec_event_id (schedule_id (schedule ts)) (timeslot_id ts);
          rq = EventsDelete (calendar_id (schedule ts)) eid;
          r = fst (P cl rq (remote w))
      in ((case r of Inr v \<Rightarrow> Inr ()
           | Inl e \<Rightarrow> if e = HttpError 404 \<or> e = HttpError 410 then Inr () else Inl e),
          \<lparr>remote = snd (P cl rq (remote w)), calls = calls w @ [rq]\<rparr>))"
  using assms
  by (simp add: delete_timeslot_event_def build_timeslot_event_id_eq execute_eq Let_def
      split: sum.splits error.splits)

lemma delete_timeslot_event_no_client:
  assumes "build_calendar_client E (owner (schedule ts)) = Inl e"
  shows "delete_timeslot_event E P ts w = (Inl e, w)"
  using assms by (simp add: delete_timeslot_event_def)

lemma update_timeslot_event_client:
  assumes "build_calendar_client E (owner (schedule ts)) = Inr cl"
    and "reservation_set ts \<noteq> []"
  shows "update_timeslot_event E P ts w =
     (let eid = spec_event_id (schedule_id (schedule ts)) (timeslot_id ts);
          east = pytz_timezone E ''America/New_York'';
          naive_from = replace_tzinfo_None (time_from ts);
          naive_to = replace_tzinfo_None (time_to ts);
          body = event_body ts (isoformat (naive_from\<lparr>tzinfo := Some (east naive_from)\<rparr>))
                   (isoformat (naive_to\<lparr>tzinfo := Some (east naive_to)\<rparr>)) eid;
          patch = EventsPatch (calendar_id (schedule ts)) eid 1 body;
          insert = EventsInsert (calendar_id (schedule ts)) 1 body;
          p = P cl patch (remote w);
          q = P cl insert (snd p)
      in case fst p of
           Inr v \<Rightarrow> (Inr (), \<lparr>remote = snd p, calls = calls w @ [patch]\<rparr>)
         | Inl e \<Rightarrow>
             (case e of
                HttpError st \<Rightarrow>
                  ((case fst q of Inr v \<Rightarrow> Inr () | Inl e' \<Rightarrow> Inl e'),
                   \<lparr>remote = snd q, calls = calls w @ [patch, insert]\<rparr>)
              | _ \<Rightarrow> (Inl e, \<lparr>remote = snd p, calls = calls w @ [patch]\<rparr>)))"
  using assms
  by (simp add: update_timeslot_event_def build_timeslot_event_id_eq execute_eq Let_def
      localize_naive split: sum.splits error.splits)

lemma jget_event_body:
  "jget (event_body ts s e eid) ''start'' = Some (JObj [(''dateTime'', JStr s)])"
  "jget (event_body ts s e eid) ''end'' = Some (JObj [(''dateTime'', JStr e)])"
  "jget (event_body ts s e eid) ''conferenceData'' = Some (calendar_meet_data (schedule ts))"
  "jget (event_body ts s e eid) ''attendees'' = Some (JList (map attendee (reservation_set ts)))"
  "jget (event_body ts s e eid) ''reminders'' = Some reminders"
  "jget (event_body ts s e eid) ''id'' = Some (JStr eid)"
  by (simp_all add: jget_def event_body_def)


section \<open>The claims\<close>

lemma spec_prehash_7_42: "spec_prehash 7 42 = ''42@7#ratatoskr.techhigh.us''"
  by code_simp

text \<open>
  C1.  For every timeslot, \<^verbatim>\<open>build_timeslot_event_id\<close> returns, without raising, the
  lowercase hexadecimal SHA-1 digest of the ASCII bytes of the string made of the
  timeslot id, an at sign, the schedule id and \<^verbatim>\<open>#ratatoskr.techhigh.us\<close>; for schedule id 7 and timeslot
  id 42 that string is \<^verbatim>\<open>"42@7#ratatoskr.techhigh.us"\<close> and the identifier is what
  \<^verbatim>\<open>hashify\<close> returns for it.
\<close>

theorem build_timeslot_event_id_is_sha1_hex:
  "build_timeslot_event_id ts = Inr (spec_event_id (schedule_id (schedule ts)) (timeslot_id ts))
   \<and> spec_prehash 7 42 = ''42@7#ratatoskr.techhigh.us''
   \<and> build_timeslot_event_id timeslot0 = hashify ''42@7#ratatoskr.techhigh.us''"
proof -
  have "built_string timeslot0 = Inr ''42@7#ratatoskr.techhigh.us''"
    by (simp add: built_string_eq timeslot0_def schedule0_def spec_prehash_7_42)
  then have "build_timeslot_event_id timeslot0 = hashify ''42@7#ratatoskr.techhigh.us''"
    by (simp add: build_timeslot_event_id_def)
  with build_timeslot_event_id_eq [of ts] spec_prehash_7_42 show ?thesis by simp
qed

text \<open>
  C8.  The derived identifier always exists, has exactly 40 characters, all of them among
  the lowercase hexadecimal digits, and depends on nothing but the pair of ids: any
  timeslot with the same schedule id and timeslot id gets the same identifier.
\<close>

theorem derived_id_shape:
  "\<exists>eid. build_timeslot_event_id ts = Inr eid \<and> length eid = 40
      \<and> set eid \<subseteq> set ''0123456789abcdef''
      \<and> (\<forall>ts'. schedule_id (schedule ts') = schedule_id (schedule ts)
                \<and> timeslot_id ts' = timeslot_id ts
             \<longrightarrow> build_timeslot_event_id ts' = Inr eid)"
proof -
  let ?eid = "spec_event_id (schedule_id (schedule ts)) (timeslot_id ts)"
  have "?eid = hexdigest (sha1 (map of_char (spec_prehash (schedule_id (schedule ts)) (timeslot_id ts))))"
    by (simp add: spec_event_id_def lower_hexdigest)
  then have "length ?eid = 40" "set ?eid \<subseteq> set ''0123456789abcdef''"
    using set_hexdigest by (simp_all only: length_hexdigest)
  moreover have "build_timeslot_event_id ts = Inr ?eid"
    by (rule build_timeslot_event_id_eq)
  moreover have "\<forall>ts'. schedule_id (schedule ts') = schedule_id (schedule ts)
                \<and> timeslot_id ts' = timeslot_id ts
             \<longrightarrow> build_timeslot_event_id ts' = Inr ?eid"
    by (simp add: build_timeslot_event_id_eq)
  ultimately show ?thesis by blast
qed

theorem derived_id_shape_witness:
  "\<exists>eid. build_timeslot_event_id timeslot0 = Inr eid \<and> length eid = 40
      \<and> set eid \<subseteq> set ''0123456789abcdef''
      \<and> build_timeslot_event_id timeslot_free = Inr eid"
proof -
  have s: "schedule_id (schedule timeslot_free) = schedule_id (schedule timeslot0)
           \<and> timeslot_id timeslot_free = timeslot_id timeslot0"
    by (simp add: timeslot_free_def)
  from derived_id_shape [of timeslot0] obtain eid where
    e: "build_timeslot_event_id timeslot0 = Inr eid" "length eid = 40"
       "set eid \<subseteq> set ''0123456789abcdef''"
    and a: "\<forall>ts'. schedule_id (schedule ts') = schedule_id (schedule timeslot0)
                \<and> timeslot_id ts' = timeslot_id timeslot0
             \<longrightarrow> build_timeslot_event_id ts' = Inr eid"
    by blast
  from a s have "build_timeslot_event_id timeslot_free = Inr eid" by blast
  with e show ?thesis by blast
qed

text \<open>
  C9.  For two timeslots whose pairs of ids differ, the strings before hashing differ and
  so do their ASCII encodings; the two identifiers are equal exactly when the SHA-1
  states of these two different messages are equal, so that a collision of identifiers
  is a collision of SHA-1.
\<close>

theorem collision_is_sha1_collision:
  assumes "(schedule_id (schedule t1), timeslot_id t1) \<noteq> (schedule_id (schedule t2), timeslot_id t2)"
  shows "\<exists>s1 s2 b1 b2. built_string t1 = Inr s1 \<and> built_string t2 = Inr s2 \<and> s1 \<noteq> s2
          \<and> ascii_bytes s1 = Inr b1 \<and> ascii_bytes s2 = Inr b2 \<and> b1 \<noteq> b2
          \<and> (build_timeslot_event_id t1 = build_timeslot_event_id t2) = (sha1 b1 = sha1 b2)"
proof -
  let ?s1 = "spec_prehash (schedule_id (schedule t1)) (timeslot_id t1)"
  let ?s2 = "spec_prehash (schedule_id (schedule t2)) (timeslot_id t2)"
  let ?b1 = "map of_char ?s1 :: byte list"
  let ?b2 = "map of_char ?s2 :: byte list"
  have ne: "?s1 \<noteq> ?s2" using assms spec_prehash_inj by blast
  then have nb: "?b1 \<noteq> ?b2" using bytes_inj by blast
  have a1: "ascii_bytes ?s1 = Inr ?b1" by (rule ascii_bytes_ok [OF spec_prehash_codes])
  have a2: "ascii_bytes ?s2 = Inr ?b2" by (rule ascii_bytes_ok [OF spec_prehash_codes])
  have "(build_timeslot_event_id t1 = build_timeslot_event_id t2) = (hexdigest (sha1 ?b1) = hexdigest (sha1 ?b2))"
    by (simp add: build_timeslot_event_id_eq spec_event_id_def lower_hexdigest)
  also have "\<dots> = (sha1 ?b1 = sha1 ?b2)" by (auto dest: hexdigest_inj)
  finally have "(build_timeslot_event_id t1 = build_timeslot_event_id t2) = (sha1 ?b1 = sha1 ?b2)" .
  with ne nb a1 a2 built_string_eq [of t1] built_string_eq [of t2] show ?thesis by blast
qed

theorem collision_is_sha1_collision_witness:
  "(schedule_id (schedule timeslot0), timeslot_id timeslot0)
      \<noteq> (schedule_id (schedule timeslot_other), timeslot_id timeslot_other)
   \<and> (\<exists>s1 s2 b1 b2. built_string timeslot0 = Inr s1 \<and> built_string timeslot_other = Inr s2 \<and> s1 \<noteq> s2
          \<and> ascii_bytes s1 = Inr b1 \<and> ascii_bytes s2 = Inr b2 \<and> b1 \<noteq> b2
          \<and> (build_timeslot_event_id timeslot0 = build_timeslot_event_id timeslot_other) = (sha1 b1 = sha1 b2))"
proof -
  have h: "(schedule_id (schedule timeslot0), timeslot_id timeslot0)
      \<noteq> (schedule_id (schedule timeslot_other), timeslot_id timeslot_other)"
    by (simp add: timeslot0_def timeslot_other_def schedule0_def)
  from h collision_is_sha1_collision [OF h] show ?thesis by blast
qed

text \<open>
  C3.  The specification says that \<^verbatim>\<open>delete_calendar_for_schedule\<close> issues a delete
  call to the provider for the schedule's calendar.  The source builds the request and
  never executes it: for every environment, provider, schedule and world, the world
  after the call is the world before it, so the log of executed requests has not grown
  and the provider's state has not changed.
\<close>

theorem delete_calendar_for_schedule_sends_nothing:
  "snd (delete_calendar_for_schedule E P sch w) = w"
  by (simp add: delete_calendar_for_schedule_def split: sum.splits)

text \<open>
  C2.  The specification says that, for a timeslot with at least one reservation, the
  insert follows the patch only when the provider reports not-found, and that every other
  provider error of the patch reaches the caller.  The source catches every
  \<open>HttpError\<close> of the patch: with a provider that answers the patch with status 500
  and accepts everything else, the call executes the patch, then the insert with the same
  body, and returns normally; the error 500 never reaches the caller.
\<close>

theorem update_falls_back_on_any_http_error:
  "build_calendar_client env0 (owner (schedule timeslot0)) = Inr client0 \<and>
   reservation_set timeslot0 \<noteq> [] \<and>
   (\<exists>eid body.
      fst (patch_failing_provider 500 client0 (EventsPatch ''cal-1'' eid 1 body) ()) = Inl (HttpError 500) \<and>
      calls (snd (update_timeslot_event env0 (patch_failing_provider 500) timeslot0 world_unit))
        = [EventsPatch ''cal-1'' eid 1 body, EventsInsert ''cal-1'' 1 body] \<and>
      fst (update_timeslot_event env0 (patch_failing_provider 500) timeslot0 world_unit) = Inr ())"
proof -
  have c: "build_calendar_client env0 (owner (schedule timeslot0)) = Inr client0"
    by (simp add: timeslot0_def schedule0_def build_calendar_client_env0)
  have r: "reservation_set timeslot0 \<noteq> []" by (simp add: timeslot0_def)
  have cal: "calendar_id (schedule timeslot0) = ''cal-1''" by (simp add: timeslot0_def schedule0_def)
  show ?thesis
    by (simp add: c r update_timeslot_event_client [OF c r] Let_def patch_failing_provider_def
        world_unit_def cal)
qed

text \<open>
  C4.  For a timeslot with no reservation, \<^verbatim>\<open>update_timeslot_event\<close> is
  \<^verbatim>\<open>delete_timeslot_event\<close>: same result, same world.  The requests it executes are
  the single delete of the event at the derived id, or none at all when the client cannot
  be built; no patch and no insert is executed.
\<close>

theorem update_without_reservations_deletes:
  assumes "reservation_set ts = []"
  shows "update_timeslot_event E P ts w = delete_timeslot_event E P ts w \<and>
     (\<exists>eid. build_timeslot_event_id ts = Inr eid \<and>
        new_calls w (snd (update_timeslot_event E P ts w)) =
          (case build_calendar_client E (owner (schedule ts)) of
             Inl e \<Rightarrow> []
           | Inr cl \<Rightarrow> [EventsDelete (calendar_id (schedule ts)) eid]))"
proof -
  have u: "update_timeslot_event E P ts w = delete_timeslot_event E P ts w"
    using assms
    by (simp add: update_timeslot_event_def delete_timeslot_event_def split: sum.splits)
  show ?thesis
  proof (cases "build_calendar_client E (owner (schedule ts))")
    case (Inl e)
    then show ?thesis
      by (simp add: u delete_timeslot_event_no_client build_timeslot_event_id_eq new_calls_def)
  next
    case (Inr cl)
    then show ?thesis
      by (simp add: u delete_timeslot_event_client build_timeslot_event_id_eq new_calls_def Let_def)
  qed
qed

theorem update_without_reservations_deletes_witness:
  "reservation_set timeslot_free = [] \<and>
   update_timeslot_event env0 store_provider timeslot_free world0
     = delete_timeslot_event env0 store_provider timeslot_free world0 \<and>
   (\<exists>eid. build_timeslot_event_id timeslot_free = Inr eid \<and>
      new_calls world0 (snd (update_timeslot_event env0 store_provider timeslot_free world0))
        = [EventsDelete ''cal-1'' eid])"
proof -
  have r: "reservation_set timeslot_free = []" by (simp add: timeslot_free_def)
  have c: "build_calendar_client env0 (owner (schedule timeslot_free)) = Inr client0"
    by (simp add: timeslot_free_def timeslot0_def schedule0_def build_calendar_client_env0)
  from update_without_reservations_deletes [OF r, of env0 store_provider world0] r c
  show ?thesis by (auto simp: timeslot_free_def timeslot0_def schedule0_def)
qed

text \<open>
  C5.  When the owner's client can be built, \<^verbatim>\<open>delete_timeslot_event\<close> executes exactly
  one request, the delete of the event at the derived id in the schedule's calendar.  It
  returns normally when the provider answers normally and when it answers with
  \<open>HttpError 404\<close> or \<open>HttpError 410\<close>; every other error of the provider is raised
  unchanged.  So a delete of an event that the provider reports as missing or gone does
  not raise, and the call can be repeated.
\<close>

theorem delete_timeslot_event_outcome:
  assumes "build_calendar_client E (owner (schedule ts)) = Inr cl"
  shows "\<exists>eid. build_timeslot_event_id ts = Inr eid \<and>
     new_calls w (snd (delete_timeslot_event E P ts w)) = [EventsDelete (calendar_id (schedule ts)) eid] \<and>
     fst (delete_timeslot_event E P ts w) =
       (case fst (P cl (EventsDelete (calendar_id (schedule ts)) eid) (remote w)) of
          Inr r \<Rightarrow> Inr ()
        | Inl e \<Rightarrow> if e = HttpError 404 \<or> e = HttpError 410 then Inr () else Inl e)"
  by (simp add: delete_timeslot_event_client [OF assms] build_timeslot_event_id_eq Let_def new_calls_def)

theorem delete_timeslot_event_outcome_witness:
  "build_calendar_client env0 (owner (schedule timeslot0)) = Inr client0 \<and>
   (\<exists>eid. build_timeslot_event_id timeslot0 = Inr eid \<and>
     new_calls world0 (snd (delete_timeslot_event env0 store_provider timeslot0 world0)) = [EventsDelete ''cal-1'' eid] \<and>
     fst (store_provider client0 (EventsDelete ''cal-1'' eid) []) = Inl (HttpError 410) \<and>
     fst (delete_timeslot_event env0 store_provider timeslot0 world0) = Inr ())"
proof -
  have c: "build_calendar_client env0 (owner (schedule timeslot0)) = Inr client0"
    by (simp add: timeslot0_def schedule0_def build_calendar_client_env0)
  from delete_timeslot_event_outcome [OF c, of world0 store_provider] c
  show ?thesis
    by (auto simp: timeslot0_def schedule0_def world0_def store_provider_def)
qed

text \<open>
  C6.  For a timeslot with at least one reservation whose owner's client can be built, the
  first request executed is the patch at the derived id, and the only request that may
  follow is the insert of the same body.  In that body, start and end are the ISO texts of
  the timeslot's wall-clock times with the offset that the zone America/New_York has at
  that wall-clock time; the conference data is the schedule's stored value; the attendees
  are the reservations in order, each with email, display name and comment; the reminders
  disable the defaults and list the three overrides of 2 days, 1 day and 10 minutes; and
  the id is the derived identifier.
\<close>

theorem event_body_contents:
  assumes "build_calendar_client E (owner (schedule ts)) = Inr cl"
    and "reservation_set ts \<noteq> []"
  shows "\<exists>eid body rest. build_timeslot_event_id ts = Inr eid
     \<and> new_calls w (snd (update_timeslot_event E P ts w))
         = EventsPatch (calendar_id (schedule ts)) eid 1 body # rest
     \<and> (rest = [] \<or> rest = [EventsInsert (calendar_id (schedule ts)) 1 body])
     \<and> jget body ''start'' = Some (JObj [(''dateTime'', JStr (isoformat
           ((time_from ts)\<lparr>tzinfo := Some (pytz_timezone E ''America/New_York''
                                             ((time_from ts)\<lparr>tzinfo := None\<rparr>))\<rparr>)))])
     \<and> jget body ''end'' = Some (JObj [(''dateTime'', JStr (isoformat
           ((time_to ts)\<lparr>tzinfo := Some (pytz_timezone E ''America/New_York''
                                           ((time_to ts)\<lparr>tzinfo := None\<rparr>))\<rparr>)))])
     \<and> jget body ''conferenceData'' = Some (calendar_meet_data (schedule ts))
     \<and> jget body ''attendees'' = Some (JList (map (\<lambda>r.
           JObj [(''email'', JStr (email r)), (''displayName'', JStr (name r)),
                 (''comment'', JStr (comment r))]) (reservation_set ts)))
     \<and> jget body ''reminders'' = Some (JObj
           [(''useDefault'', JBool False),
            (''overrides'', JList
               [JObj [(''method'', JStr ''email''), (''minutes'', JInt (2 * 24 * 60))],
                JObj [(''method'', JStr ''email''), (''minutes'', JInt (24 * 60))],
                JObj [(''method'', JStr ''email''), (''minutes'', JInt 10)]])])
     \<and> jget body ''id'' = Some (JStr eid)"
proof -
  let ?eid = "spec_event_id (schedule_id (schedule ts)) (timeslot_id ts)"
  let ?east = "pytz_timezone E ''America/New_York''"
  let ?nf = "replace_tzinfo_None (time_from ts)"
  let ?nt = "replace_tzinfo_None (time_to ts)"
  let ?body = "event_body ts (isoformat (?nf\<lparr>tzinfo := Some (?east ?nf)\<rparr>))
                 (isoformat (?nt\<lparr>tzinfo := Some (?east ?nt)\<rparr>)) ?eid"
  let ?patch = "EventsPatch (calendar_id (schedule ts)) ?eid 1 ?body"
  let ?insert = "EventsInsert (calendar_id (schedule ts)) 1 ?body"
  have n: "new_calls w (snd (update_timeslot_event E P ts w)) = [?patch]
         \<or> new_calls w (snd (update_timeslot_event E P ts w)) = [?patch, ?insert]"
    by (simp add: update_timeslot_event_client [OF assms] Let_def new_calls_def
        split: sum.splits error.splits)
  have att: "map attendee (reservation_set ts) = map (\<lambda>r.
           JObj [(''email'', JStr (email r)), (''displayName'', JStr (name r)),
                 (''comment'', JStr (comment r))]) (reservation_set ts)"
    by (simp add: attendee_def)
  have f: "?nf\<lparr>tzinfo := Some (?east ?nf)\<rparr>
           = (time_from ts)\<lparr>tzinfo := Some (?east ((time_from ts)\<lparr>tzinfo := None\<rparr>))\<rparr>"
    by (simp add: replace_tzinfo_None_def)
  have t: "?nt\<lparr>tzinfo := Some (?east ?nt)\<rparr>
           = (time_to ts)\<lparr>tzinfo := Some (?east ((time_to ts)\<lparr>tzinfo := None\<rparr>))\<rparr>"
    by (simp add: replace_tzinfo_None_def)
  have b: "jget ?body ''start'' = Some (JObj [(''dateTime'', JStr (isoformat
           ((time_from ts)\<lparr>tzinfo := Some (?east ((time_from ts)\<lparr>tzinfo := None\<rparr>))\<rparr>)))])"
    "jget ?body ''end'' = Some (JObj [(''dateTime'', JStr (isoformat
           ((time_to ts)\<lparr>tzinfo := Some (?east ((time_to ts)\<lparr>tzinfo := None\<rparr>))\<rparr>)))])"
    by (simp_all only: jget_event_body f t)
  have rem: "jget ?body ''reminders'' = Some (JObj
           [(''useDefault'', JBool False),
            (''overrides'', JList
               [JObj [(''method'', JStr ''email''), (''minutes'', JInt (2 * 24 * 60))],
                JObj [(''method'', JStr ''email''), (''minutes'', JInt (24 * 60))],
                JObj [(''method'', JStr ''email''), (''minutes'', JInt 10)]])])"
    by (simp add: jget_event_body reminders_def)
  have rest: "jget ?body ''conferenceData'' = Some (calendar_meet_data (schedule ts))"
    "jget ?body ''attendees'' = Some (JList (map (\<lambda>r.
           JObj [(''email'', JStr (email r)), (''displayName'', JStr (name r)),
                 (''comment'', JStr (comment r))]) (reservation_set ts)))"
    "jget ?body ''id'' = Some (JStr ?eid)"
    by (simp_all only: jget_event_body att)
  from n show ?thesis
  proof
    assume "new_calls w (snd (update_timeslot_event E P ts w)) = [?patch]"
    with b rem rest build_timeslot_event_id_eq [of ts] show ?thesis by blast
  next
    assume "new_calls w (snd (update_timeslot_event E P ts w)) = [?patch, ?insert]"
    with b rem rest build_timeslot_event_id_eq [of ts] show ?thesis by blast
  qed
qed

theorem event_body_contents_witness:
  "build_calendar_client env0 (owner (schedule timeslot0)) = Inr client0 \<and>
   reservation_set timeslot0 \<noteq> [] \<and>
   (\<exists>eid body rest. build_timeslot_event_id timeslot0 = Inr eid
     \<and> new_calls world0 (snd (update_timeslot_event env0 store_provider timeslot0 world0))
         = EventsPatch ''cal-1'' eid 1 body # rest
     \<and> (rest = [] \<or> rest = [EventsInsert ''cal-1'' 1 body])
     \<and> jget body ''start'' = Some (JObj [(''dateTime'', JStr ''2022-03-14T09:30:00-05:00'')])
     \<and> jget body ''end'' = Some (JObj [(''dateTime'', JStr ''2022-03-14T10:00:00-05:00'')])
     \<and> jget body ''conferenceData'' = Some meet_data
     \<and> jget body ''attendees'' = Some (JList
           [JObj [(''email'', JStr ''bob@example.org''), (''displayName'', JStr ''Bob''),
                  (''comment'', JStr ''first visit'')]])
     \<and> jget body ''reminders'' = Some (JObj
           [(''useDefault'', JBool False),
            (''overrides'', JList
               [JObj [(''method'', JStr ''email''), (''minutes'', JInt 2880)],
                JObj [(''method'', JStr ''email''), (''minutes'', JInt 1440)],
                JObj [(''method'', JStr ''email''), (''minutes'', JInt 10)]])])
     \<and> jget body ''id'' = Some (JStr eid))"
proof -
  have c: "build_calendar_client env0 (owner (schedule timeslot0)) = Inr client0"
    by (simp add: timeslot0_def schedule0_def build_calendar_client_env0)
  have r: "reservation_set timeslot0 \<noteq> []" by (simp add: timeslot0_def)
  have s: "isoformat (time_from timeslot0\<lparr>tzinfo := Some (pytz_timezone env0 ''America/New_York''
              (time_from timeslot0\<lparr>tzinfo := None\<rparr>))\<rparr>) = ''2022-03-14T09:30:00-05:00''"
    by code_simp
  have e: "isoformat (time_to timeslot0\<lparr>tzinfo := Some (pytz_timezone env0 ''America/New_York''
              (time_to timeslot0\<lparr>tzinfo := None\<rparr>))\<rparr>) = ''2022-03-14T10:00:00-05:00''"
    by code_simp
  have f: "calendar_id (schedule timeslot0) = ''cal-1''"
    "calendar_meet_data (schedule timeslot0) = meet_data"
    "reservation_set timeslot0 = [\<lparr>email = ''bob@example.org'', name = ''Bob'', comment = ''first visit''\<rparr>]"
    by (simp_all add: timeslot0_def schedule0_def)
  from event_body_contents [OF c r, of world0 store_provider] c r
  show ?thesis unfolding s e f by simp
qed




text \<open>
  C10.  For a timeslot with at least one reservation whose owner's client can be built,
  \<^verbatim>\<open>update_timeslot_event\<close> executes at least one request, and each request it
  executes is a patch addressed to the derived id or an insert, with the derived id in the
  \<^verbatim>\<open>id\<close> field of its body.  A later \<^verbatim>\<open>delete_timeslot_event\<close> for the same
  timeslot, in any world and with any provider, addresses its delete to that same id.
\<close>

theorem every_body_carries_derived_id:
  assumes "build_calendar_client E (owner (schedule ts)) = Inr cl"
    and "reservation_set ts \<noteq> []"
  shows "\<exists>eid. build_timeslot_event_id ts = Inr eid
     \<and> new_calls w (snd (update_timeslot_event E P ts w)) \<noteq> []
     \<and> list_all (carries_id eid) (new_calls w (snd (update_timeslot_event E P ts w)))
     \<and> new_calls w' (snd (delete_timeslot_event E P' ts w'))
         = [EventsDelete (calendar_id (schedule ts)) eid]"
proof -
  let ?eid = "spec_event_id (schedule_id (schedule ts)) (timeslot_id ts)"
  have u: "new_calls w (snd (update_timeslot_event E P ts w)) \<noteq> []
     \<and> list_all (carries_id ?eid) (new_calls w (snd (update_timeslot_event E P ts w)))"
    by (simp add: update_timeslot_event_client [OF assms] Let_def new_calls_def carries_id_def
        jget_event_body split: sum.splits error.splits)
  have d: "new_calls w' (snd (delete_timeslot_event E P' ts w'))
         = [EventsDelete (calendar_id (schedule ts)) ?eid]"
    by (simp add: delete_timeslot_event_client [OF assms(1)] Let_def new_calls_def)
  from u d build_timeslot_event_id_eq [of ts] show ?thesis by blast
qed

theorem every_body_carries_derived_id_witness:
  "build_calendar_client env0 (owner (schedule timeslot0)) = Inr client0 \<and>
   reservation_set timeslot0 \<noteq> [] \<and>
   (\<exists>eid. build_timeslot_event_id timeslot0 = Inr eid
     \<and> new_calls world0 (snd (update_timeslot_event env0 store_provider timeslot0 world0)) \<noteq> []
     \<and> list_all (carries_id eid)
          (new_calls world0 (snd (update_timeslot_event env0 store_provider timeslot0 world0)))
     \<and> new_calls world0 (snd (delete_timeslot_event env0 store_provider timeslot0 world0))
         = [EventsDelete ''cal-1'' eid])"
proof -
  have c: "build_calendar_client env0 (owner (schedule timeslot0)) = Inr client0"
    by (simp add: timeslot0_def schedule0_def build_calendar_client_env0)
  have r: "reservation_set timeslot0 \<noteq> []" by (simp add: timeslot0_def)
  have f: "calendar_id (schedule timeslot0) = ''cal-1''"
    by (simp add: timeslot0_def schedule0_def)
  from every_body_carries_derived_id [OF c r, of world0 store_provider world0 store_provider] c r
  show ?thesis unfolding f by simp
qed


end
